theory Spec2Isabelle
  imports Complex_Main
begin

section \<open>JavaScript values used by the RAG services\<close>

text \<open>
  A JavaScript string is a sequence of UTF-16 code units; \<open>substring\<close>, \<open>length\<close> and the
  character classes of regular expressions all work on code units, so a string is modelled
  as the list of its code units. \<open>lit\<close> turns an ASCII literal of the source into such a list.
  Numbers are modelled as exact reals: rounding of IEEE-754 doubles is not part of the model.
\<close>

type_synonym jsstring = "nat list"

definition lit :: "string \<Rightarrow> jsstring" where
  "lit s = map of_char s"

text \<open>\<open>String.prototype.includes\<close>: does \<open>sub\<close> occur in \<open>s\<close> as a contiguous run.\<close>

fun js_includes :: "jsstring \<Rightarrow> jsstring \<Rightarrow> bool" where
  "js_includes [] sub = (sub = [])"
| "js_includes (c # cs) sub = (take (length sub) (c # cs) = sub \<or> js_includes cs sub)"

text \<open>
  The \<open>metadata\<close> object of a knowledge record is duck-typed in the source: any field may be
  missing (\<open>undefined\<close>), which is \<open>None\<close> here. Only the fields the services read are kept.
\<close>

record metadata =
  md_type :: "jsstring option"
  md_author :: "jsstring option"
  md_year :: "int option"
  md_clinical_relevance :: "real option"
  md_language :: "jsstring option"
  md_text :: "jsstring option"
  md_title :: "jsstring option"

definition no_metadata :: metadata where
  "no_metadata = \<lparr>md_type = None, md_author = None, md_year = None,
     md_clinical_relevance = None, md_language = None, md_text = None, md_title = None\<rparr>"

text \<open>
  \<open>x || d\<close> on an optional number: the default is taken when \<open>x\<close> is \<open>undefined\<close> and also
  when it is \<open>0\<close>, both being falsy. The same operator on an optional string takes the
  default for \<open>undefined\<close> and for the empty string.
\<close>

definition num_or :: "real option \<Rightarrow> real \<Rightarrow> real" where
  "num_or x d = (case x of None \<Rightarrow> d | Some v \<Rightarrow> if v = 0 then d else v)"

definition str_or :: "jsstring option \<Rightarrow> jsstring \<Rightarrow> jsstring" where
  "str_or x d = (case x of None \<Rightarrow> d | Some v \<Rightarrow> if v = [] then d else v)"

section \<open>Relevance ranker (ragService.js)\<close>

text \<open>
  \<open>getRecencyBonus(year)\<close>. \<open>new Date().getFullYear()\<close> is read from the environment and is the
  parameter \<open>currentYear\<close>. \<open>!year\<close> holds for a missing year and for the year \<open>0\<close>.
\<close>

definition getRecencyBonus :: "int \<Rightarrow> int option \<Rightarrow> real" where
  "getRecencyBonus currentYear year =
     (case year of
        None \<Rightarrow> 0
      | Some y \<Rightarrow>
          if y = 0 then 0
          else let yearsOld = currentYear - y in
            if yearsOld \<le> 1 then 0.2
            else if yearsOld \<le> 2 then 0.15
            else if yearsOld \<le> 3 then 0.1
            else 0)"

definition professor_name :: jsstring where
  "professor_name = lit ''Chang-Myung Oh''"

text \<open>
  \<open>getAuthorityBonus(type, author)\<close>. \<open>author?.includes(..)\<close> is \<open>undefined\<close>, hence falsy, for
  a missing author; \<open>type === 'research_paper' && author\<close> needs a non-empty author.
\<close>

definition author_includes :: "jsstring option \<Rightarrow> jsstring \<Rightarrow> bool" where
  "author_includes author name = (case author of None \<Rightarrow> False | Some a \<Rightarrow> js_includes a name)"

definition truthy_str :: "jsstring option \<Rightarrow> bool" where
  "truthy_str x = (case x of None \<Rightarrow> False | Some v \<Rightarrow> v \<noteq> [])"

definition getAuthorityBonus :: "jsstring option \<Rightarrow> jsstring option \<Rightarrow> real" where
  "getAuthorityBonus type author =
     (if type = Some (lit ''professor_expertise'') \<or> author_includes author professor_name
      then 0.3
      else if type = Some (lit ''research_paper'') \<and> truthy_str author then 0.15
      else if type = Some (lit ''clinical_trial'') then 0.2
      else 0)"

definition calculateRelevance :: "int \<Rightarrow> real \<Rightarrow> metadata \<Rightarrow> real" where
  "calculateRelevance currentYear score metadata =
     (let similarityScore = score;
          clinicalRelevance = num_or (md_clinical_relevance metadata) 0.5;
          recencyBonus = getRecencyBonus currentYear (md_year metadata);
          authorityBonus = getAuthorityBonus (md_type metadata) (md_author metadata)
      in (similarityScore * 0.4) + (clinicalRelevance * 0.3) + (recencyBonus * 0.2)
         + (authorityBonus * 0.1))"

section \<open>Multilingual ranker (geminiRAGService.js)\<close>

text \<open>
  \<open>detectLanguage\<close>: \<open>[\<dots>]\<close> of the source's first pattern is the block of Hangul syllables,
  U+AC00 to U+D7A3; \<open>\s\<close> is the white space of ECMAScript regular expressions.
  \<open>text.match\<close> gives \<open>null\<close> when no syllable occurs, which makes the test false before the
  division is evaluated.
\<close>

definition is_hangul :: "nat \<Rightarrow> bool" where
  "is_hangul c = (0xAC00 \<le> c \<and> c \<le> 0xD7A3)"

definition is_js_space :: "nat \<Rightarrow> bool" where
  "is_js_space c =
     (c \<in> {0x09, 0x0A, 0x0B, 0x0C, 0x0D, 0x20, 0xA0, 0x1680, 0x2028, 0x2029, 0x202F,
            0x205F, 0x3000, 0xFEFF}
      \<or> (0x2000 \<le> c \<and> c \<le> 0x200A))"

definition detectLanguage :: "jsstring \<Rightarrow> jsstring" where
  "detectLanguage text =
     (let koreanChars = filter is_hangul text;
          totalChars = length (filter (\<lambda>c. \<not> is_js_space c) text)
      in if koreanChars \<noteq> [] \<and> real (length koreanChars) / real totalChars > 0.3
         then lit ''korean'' else lit ''english'')"

definition calculateMultilingualRelevance ::
    "int \<Rightarrow> real \<Rightarrow> metadata \<Rightarrow> jsstring \<Rightarrow> real" where
  "calculateMultilingualRelevance currentYear score metadata query =
     (let baseRelevance = calculateRelevance currentYear score metadata;
          queryLanguage = detectLanguage query;
          contentLanguage = str_or (md_language metadata) (lit ''english'');
          languageBonus = (if queryLanguage = contentLanguage then 0.2 else 0);
          koreanBonus = (if queryLanguage = lit ''korean'' \<and> contentLanguage = lit ''korean''
                         then 0.1 else 0)
      in min 1 (baseRelevance + languageBonus + koreanBonus))"

text \<open>The first expertise record of \<open>loadProfessorExpertise\<close>, used as a concrete input.\<close>

definition prof_oh_001 :: metadata where
  "prof_oh_001 = \<lparr>md_type = Some (lit ''professor_expertise''),
     md_author = Some (lit ''Chang-Myung Oh''), md_year = Some 2023,
     md_clinical_relevance = Some 0.92, md_language = None, md_text = None,
     md_title = None\<rparr>"

section \<open>Confidence scoring\<close>

text \<open>
  The confidence computation divides by \<open>sources.length\<close>, so the values a JavaScript
  division produces besides finite numbers are part of the model: the two infinities and
  \<open>NaN\<close>. The operations below are the ones the confidence functions apply to the average,
  each with a finite second operand: \<open>x / y\<close> on finite numbers, \<open>x * c\<close>, \<open>x + c\<close>,
  \<open>Math.max(c, x)\<close>, \<open>Math.min(c, x)\<close> and \<open>x > c\<close>.
\<close>

datatype jsnum = Num real | PosInf | NegInf | NaN

definition js_div :: "real \<Rightarrow> real \<Rightarrow> jsnum" where
  "js_div a b =
     (if b \<noteq> 0 then Num (a / b)
      else if a = 0 then NaN
      else if 0 < a then PosInf else NegInf)"

fun js_mul :: "jsnum \<Rightarrow> real \<Rightarrow> jsnum" where
  "js_mul (Num a) c = Num (a * c)"
| "js_mul PosInf c = (if 0 < c then PosInf else if c < 0 then NegInf else NaN)"
| "js_mul NegInf c = (if 0 < c then NegInf else if c < 0 then PosInf else NaN)"
| "js_mul NaN c = NaN"

fun js_add :: "jsnum \<Rightarrow> real \<Rightarrow> jsnum" where
  "js_add (Num a) c = Num (a + c)"
| "js_add PosInf c = PosInf"
| "js_add NegInf c = NegInf"
| "js_add NaN c = NaN"

fun math_max :: "real \<Rightarrow> jsnum \<Rightarrow> jsnum" where
  "math_max c (Num a) = Num (max c a)"
| "math_max c PosInf = PosInf"
| "math_max c NegInf = Num c"
| "math_max c NaN = NaN"

fun math_min :: "real \<Rightarrow> jsnum \<Rightarrow> jsnum" where
  "math_min c (Num a) = Num (min c a)"
| "math_min c PosInf = Num c"
| "math_min c NegInf = NegInf"
| "math_min c NaN = NaN"

fun js_gt :: "jsnum \<Rightarrow> real \<Rightarrow> bool" where
  "js_gt (Num a) c = (c < a)"
| "js_gt PosInf c = True"
| "js_gt NegInf c = False"
| "js_gt NaN c = False"

text \<open>A formatted search result, as \<open>searchLongevity\<close> builds it from a match.\<close>

record retrieval_result =
  rr_id :: jsstring
  rr_score :: real
  rr_text :: jsstring
  rr_metadata :: metadata
  rr_relevance :: real

record confidence_factors =
  relevance_avg :: jsnum
  source_count :: nat
  authority_sources :: nat

record confidence =
  conf_score :: jsnum
  conf_level :: jsstring
  conf_factors :: confidence_factors

text \<open>The predicate of \<open>sources.filter\<close> in \<open>calculateResponseConfidence\<close>.\<close>

definition is_authority :: "retrieval_result \<Rightarrow> bool" where
  "is_authority s =
     (md_type (rr_metadata s) = Some (lit ''professor_expertise'')
      \<or> author_includes (md_author (rr_metadata s)) professor_name)"

definition calculateResponseConfidence :: "retrieval_result list \<Rightarrow> confidence" where
  "calculateResponseConfidence sources =
     (let avgRelevance =
            js_div (foldl (\<lambda>sum s. sum + rr_relevance s) 0 sources) (real (length sources));
          sourceCount = length sources;
          authorityScore = length (filter is_authority sources);
          confidence0 =
            js_add (js_add (js_mul avgRelevance 0.4) (real sourceCount * 0.3))
              (real authorityScore * 0.3);
          confidence = math_min 1 (math_max 0 confidence0)
      in \<lparr>conf_score = confidence,
          conf_level = (if js_gt confidence 0.8 then lit ''High''
                        else if js_gt confidence 0.6 then lit ''Medium'' else lit ''Low''),
          conf_factors = \<lparr>relevance_avg = avgRelevance, source_count = sourceCount,
                           authority_sources = authorityScore\<rparr>\<rparr>)"

text \<open>
  \<open>calculateGeminiConfidence\<close> counts Korean-language sources as authoritative too, looks
  for the professor's Korean name and names the levels in Korean; the string constants are
  the code units of the source's literals.
\<close>

definition professor_name_korean :: jsstring where
  "professor_name_korean = [0xC7A5, 0xC218, 0xC601, 0x20, 0xC624]"

definition level_high_korean :: jsstring where
  "level_high_korean = [0xB192, 0xC74C]"

definition level_medium_korean :: jsstring where
  "level_medium_korean = [0xC911, 0xAC04]"

definition level_low_korean :: jsstring where
  "level_low_korean = [0xB0AE, 0xC74C]"

definition is_gemini_authority :: "retrieval_result \<Rightarrow> bool" where
  "is_gemini_authority s =
     (md_type (rr_metadata s) = Some (lit ''professor_expertise'')
      \<or> author_includes (md_author (rr_metadata s)) professor_name_korean
      \<or> md_language (rr_metadata s) = Some (lit ''korean''))"

definition calculateGeminiConfidence :: "retrieval_result list \<Rightarrow> confidence" where
  "calculateGeminiConfidence sources =
     (let avgRelevance =
            js_div (foldl (\<lambda>sum s. sum + rr_relevance s) 0 sources) (real (length sources));
          sourceCount = length sources;
          authorityScore = length (filter is_gemini_authority sources);
          confidence0 =
            js_add (js_add (js_mul avgRelevance 0.4) (real sourceCount * 0.3))
              (real authorityScore * 0.3);
          confidence = math_min 1 (math_max 0 confidence0)
      in \<lparr>conf_score = confidence,
          conf_level = (if js_gt confidence 0.8 then level_high_korean
                        else if js_gt confidence 0.6 then level_medium_korean
                        else level_low_korean),
          conf_factors = \<lparr>relevance_avg = avgRelevance, source_count = sourceCount,
                           authority_sources = authorityScore\<rparr>\<rparr>)"

text \<open>
  The confidence formula in the specification's words, for comparison with the two
  functions above: \<open>0.4*avgRelevance + 0.3*min(1, sourceCount/targetCount) +
  0.3*min(1, authorityCount/targetCount)\<close>, clamped to \<open>[0,1]\<close>. The source has no target
  count; it is a parameter here.
\<close>

definition spec_confidence :: "real \<Rightarrow> real \<Rightarrow> nat \<Rightarrow> nat \<Rightarrow> real" where
  "spec_confidence targetCount avgRelevance sourceCount authorityCount =
     min 1 (max 0 (0.4 * avgRelevance
                   + 0.3 * min 1 (real sourceCount / targetCount)
                   + 0.3 * min 1 (real authorityCount / targetCount)))"

text \<open>A search result without metadata and with a given relevance, as a concrete input.\<close>

definition plain_result :: "real \<Rightarrow> retrieval_result" where
  "plain_result r = \<lparr>rr_id = lit ''x'', rr_score = r, rr_text = [], rr_metadata = no_metadata,
     rr_relevance = r\<rparr>"

text \<open>The mean relevance of a non-empty list of sources.\<close>

definition mean_relevance :: "retrieval_result list \<Rightarrow> real" where
  "mean_relevance sources = sum_list (map rr_relevance sources) / real (length sources)"

section \<open>Chunking (ragService.js)\<close>

text \<open>
  \<open>text.split(' ')\<close> cuts at every single space character (code unit 32): two adjacent
  spaces give an empty word, the empty text gives one empty word, and tabs or line breaks
  do not separate words. \<open>words.join(' ')\<close> puts one space between neighbours, and
  \<open>words.slice(i, j)\<close> is used with \<open>0 \<le> i \<le> j\<close> only.
\<close>

fun split_space :: "jsstring \<Rightarrow> jsstring list" where
  "split_space [] = [[]]"
| "split_space (c # cs) =
     (if c = 0x20 then [] # split_space cs
      else (case split_space cs of [] \<Rightarrow> [[c]] | w # ws \<Rightarrow> (c # w) # ws))"

fun join_space :: "jsstring list \<Rightarrow> jsstring" where
  "join_space [] = []"
| "join_space [w] = w"
| "join_space (w # v # ws) = w @ [0x20] @ join_space (v # ws)"

definition slice :: "'a list \<Rightarrow> nat \<Rightarrow> nat \<Rightarrow> 'a list" where
  "slice xs i j = take (j - i) (drop i xs)"

text \<open>
  The \<open>for\<close> loop of \<open>chunkDocument\<close>, with the loop variable \<open>i\<close> and the array \<open>chunks\<close> as
  arguments. With \<open>chunkSize = 0\<close> the loop variable never advances and the loop does not
  end, which is the value \<open>None\<close>.
\<close>

partial_function (option) chunk_loop ::
    "jsstring list \<Rightarrow> nat \<Rightarrow> nat \<Rightarrow> jsstring list \<Rightarrow> jsstring list option" where
  "chunk_loop words chunkSize i chunks =
     (if i < length words
      then chunk_loop words chunkSize (i + chunkSize)
             (chunks @ [join_space (slice words i (i + chunkSize))])
      else Some chunks)"

definition chunkDocument :: "jsstring \<Rightarrow> nat \<Rightarrow> jsstring list option" where
  "chunkDocument text chunkSize = chunk_loop (split_space text) chunkSize 0 []"


section \<open>Citation extraction (ragService.js)\<close>

text \<open>
  Exceptions of the services as values. \<open>TypeError\<close> is what JavaScript throws for a method
  call on a value that has no such method and for an index into \<open>null\<close>; the other three
  stand for whatever the vector store, the embedding provider and the chat provider throw.
\<close>

datatype js_error = TypeError | VectorStoreError | EmbeddingError | GenerationError

definition is_digit :: "nat \<Rightarrow> bool" where
  "is_digit c = (0x30 \<le> c \<and> c \<le> 0x39)"

definition source_open :: jsstring where
  "source_open = lit ''[Source ''"

text \<open>
  One attempt of the pattern \<open>\[Source \d+\]\<close> at the start of \<open>s\<close>: the literal opening,
  the longest run of digits, which must not be empty, and the closing bracket (code unit
  \<open>0x5D\<close>). Giving back digits cannot help, since the unit after a shorter run is a digit.
  The result is the matched text and what follows it.
\<close>

definition match_citation_at :: "jsstring \<Rightarrow> (jsstring \<times> jsstring) option" where
  "match_citation_at s =
     (if take (length source_open) s = source_open
      then let rest = drop (length source_open) s;
               ds = takeWhile is_digit rest
           in (case dropWhile is_digit rest of
                 [] \<Rightarrow> None
               | c # after \<Rightarrow>
                   if ds \<noteq> [] \<and> c = 0x5D then Some (source_open @ ds @ [0x5D], after)
                   else None)
      else None)"

lemma match_citation_at_shorter:
  assumes "match_citation_at s = Some (m, after)"
  shows "length after < length s"
proof -
  let ?rest = "drop (length source_open) s"
  obtain c where d: "dropWhile is_digit ?rest = c # after"
    using assms by (auto simp: match_citation_at_def Let_def split: if_splits list.splits)
  have "length (dropWhile is_digit ?rest) \<le> length ?rest"
    by (rule length_dropWhile_le)
  then show ?thesis using d by simp
qed

text \<open>
  \<open>text.match(citationPattern) || []\<close> with the global flag: all matches from left to right,
  the search resuming after each match and one unit further after a failed attempt.
\<close>

function match_all_citations :: "jsstring \<Rightarrow> jsstring list" where
  "match_all_citations [] = []"
| "match_all_citations (c # cs) =
     (case match_citation_at (c # cs) of
        Some (m, after) \<Rightarrow> m # match_all_citations after
      | None \<Rightarrow> match_all_citations cs)"
  by pat_completeness auto
termination
proof (relation "measure length")
  show "wf (measure length)" by simp
next
  fix c cs x m after
  assume "match_citation_at (c # cs) = Some x" and "(m, after) = x"
  then have "match_citation_at (c # cs) = Some (m, after)" by simp
  then have "length after < length (c # cs)" by (rule match_citation_at_shorter)
  then show "(after, c # cs) \<in> measure length" by simp
next
  fix c cs
  show "(cs, c # cs) \<in> measure length" by simp
qed

text \<open>
  \<open>citation.match(/\d+/)\<close> without the global flag: the first longest run of digits, or
  \<open>null\<close> (here \<open>None\<close>) when the text has no digit. \<open>parseInt\<close> is applied to such a run only
  and then gives its decimal value.
\<close>

definition first_digits :: "jsstring \<Rightarrow> jsstring option" where
  "first_digits s =
     (let r = dropWhile (\<lambda>c. \<not> is_digit c) s
      in if r = [] then None else Some (takeWhile is_digit r))"

definition parseInt :: "jsstring \<Rightarrow> nat" where
  "parseInt ds = foldl (\<lambda>n d. 10 * n + (d - 0x30)) 0 ds"

record citation =
  cit_text :: jsstring
  sourceNumber :: nat

text \<open>
  The callback of \<open>citations.map\<close>; indexing the \<open>null\<close> of a failed match throws a
  \<open>TypeError\<close>, which ends the whole \<open>map\<close>.
\<close>

fun map_citations :: "jsstring list \<Rightarrow> js_error + citation list" where
  "map_citations [] = Inr []"
| "map_citations (c # cs) =
     (case first_digits c of
        None \<Rightarrow> Inl TypeError
      | Some sourceNum \<Rightarrow>
          (case map_citations cs of
             Inl e \<Rightarrow> Inl e
           | Inr rs \<Rightarrow> Inr (\<lparr>cit_text = c, sourceNumber = parseInt sourceNum\<rparr> # rs)))"

definition extractCitations :: "jsstring \<Rightarrow> js_error + citation list" where
  "extractCitations text = map_citations (match_all_citations text)"

record formatted_response =
  fr_text :: jsstring
  fr_citations :: "citation list"
  fr_sourceCount :: nat

definition formatRAGResponse ::
    "jsstring \<Rightarrow> retrieval_result list \<Rightarrow> js_error + formatted_response" where
  "formatRAGResponse response sources =
     (case extractCitations response of
        Inl e \<Rightarrow> Inl e
      | Inr citations \<Rightarrow>
          Inr \<lparr>fr_text = response, fr_citations = citations,
               fr_sourceCount = length sources\<rparr>)"








section \<open>Embedding cache, search and answer generation (ragService.js)\<close>

text \<open>
  A value of a JSON request body. Only its truthiness and whether it is a string matter to
  the services; arrays and objects are \<open>JObject\<close> (always truthy, and without a
  \<open>substring\<close> method).
\<close>

datatype jsval = JUndefined | JNull | JBool bool | JNum real | JStr jsstring | JObject



type_synonym embedding = "real list"

text \<open>The caller's profile: an object with printable entries; \<open>{}\<close> is the empty list.\<close>

type_synonym userProfile = "(jsstring \<times> jsstring) list"

record pinecone_match =
  pm_id :: jsstring
  pm_score :: real
  pm_metadata :: metadata

text \<open>
  The calls that leave the process, in the order they are made: \<open>pinecone.index(name)\<close>,
  \<open>openai.embeddings.create\<close> with its input, \<open>index.query\<close> with vector, \<open>topK\<close> and the types
  of the filter, and \<open>openai.chat.completions.create\<close>. The two prompts of the last call are
  built from the profile, the query and the ranked results; the call is recorded with these
  three rather than with the rendered prompt text.
\<close>

datatype ext_call =
    IndexHandle jsstring
  | EmbeddingsCreate jsstring
  | IndexQuery embedding nat "jsstring list"
  | ChatCompletion userProfile jsval "retrieval_result list"

text \<open>
  The external collaborators. Each answer may depend on the calls made so far (the first
  argument), so that a provider need not give the same answer twice; \<open>None\<close> and \<open>False\<close>
  stand for a call that throws.
\<close>

record services =
  index_handle :: "ext_call list \<Rightarrow> jsstring \<Rightarrow> bool"
  embeddings_create :: "ext_call list \<Rightarrow> jsstring \<Rightarrow> embedding option"
  index_query ::
    "ext_call list \<Rightarrow> embedding \<Rightarrow> nat \<Rightarrow> jsstring list \<Rightarrow> pinecone_match list option"
  chat_create ::
    "ext_call list \<Rightarrow> userProfile \<Rightarrow> jsval \<Rightarrow> retrieval_result list \<Rightarrow> jsstring option"
  currentYear :: int

text \<open>The mutable part of a \<open>RAGLongevityService\<close>, and the calls it has made.\<close>

record rag_state =
  embeddingsCache :: "jsstring \<rightharpoonup> embedding"
  calls :: "ext_call list"

definition record_call :: "ext_call \<Rightarrow> rag_state \<Rightarrow> rag_state" where
  "record_call c st = st\<lparr>calls := calls st @ [c]\<rparr>"

definition indexName :: jsstring where
  "indexName = lit ''longevity-knowledge''"

text \<open>
  \<open>createEmbedding(text)\<close>. \<open>text.substring\<close> throws a \<open>TypeError\<close> unless \<open>text\<close> is a string.
  The cache key is \<open>emb_\<close> followed by the first 100 code units of the text.
\<close>

definition createEmbedding ::
    "services \<Rightarrow> rag_state \<Rightarrow> jsval \<Rightarrow> (js_error + embedding) \<times> rag_state" where
  "createEmbedding srv st text =
     (case text of
        JStr t \<Rightarrow>
          (let cacheKey = lit ''emb_'' @ take 100 t in
           case embeddingsCache st cacheKey of
             Some cached \<Rightarrow> (Inr cached, st)
           | None \<Rightarrow>
               (let st1 = record_call (EmbeddingsCreate t) st in
                case embeddings_create srv (calls st) t of
                  None \<Rightarrow> (Inl EmbeddingError, st1)
                | Some e \<Rightarrow>
                    (Inr e, st1\<lparr>embeddingsCache := (embeddingsCache st1)(cacheKey \<mapsto> e)\<rparr>)))
      | _ \<Rightarrow> (Inl TypeError, st))"

definition format_match :: "int \<Rightarrow> pinecone_match \<Rightarrow> retrieval_result" where
  "format_match cy m =
     \<lparr>rr_id = pm_id m, rr_score = pm_score m,
      rr_text = str_or (md_text (pm_metadata m)) [],
      rr_metadata = pm_metadata m,
      rr_relevance = calculateRelevance cy (pm_score m) (pm_metadata m)\<rparr>"

definition searchLongevity ::
    "services \<Rightarrow> rag_state \<Rightarrow> jsval \<Rightarrow> nat \<Rightarrow> jsstring list
      \<Rightarrow> (js_error + retrieval_result list) \<times> rag_state" where
  "searchLongevity srv st query topK filters =
     (let st1 = record_call (IndexHandle indexName) st in
      if \<not> index_handle srv (calls st) indexName then (Inl VectorStoreError, st1)
      else
        (case createEmbedding srv st1 query of
           (Inl e, st2) \<Rightarrow> (Inl e, st2)
         | (Inr queryEmbedding, st2) \<Rightarrow>
             (let st3 = record_call (IndexQuery queryEmbedding topK filters) st2 in
              case index_query srv (calls st2) queryEmbedding topK filters of
                None \<Rightarrow> (Inl VectorStoreError, st3)
              | Some matches \<Rightarrow> (Inr (map (format_match (currentYear srv)) matches), st3))))"

text \<open>
  \<open>results.sort((a, b) => b.relevance - a.relevance)\<close>: a stable sort by descending
  relevance.
\<close>

definition sort_by_relevance :: "retrieval_result list \<Rightarrow> retrieval_result list" where
  "sort_by_relevance results = sort_key (\<lambda>r. - rr_relevance r) results"

definition rag_filter :: "jsstring list" where
  "rag_filter = [lit ''research_paper'', lit ''professor_expertise'', lit ''clinical_trial'']"

record answer =
  ans_query :: jsval
  ans_response :: jsstring
  ans_citations :: "citation list"
  ans_sources :: "retrieval_result list"
  ans_confidence :: confidence
  ans_userProfile :: userProfile

definition generateRAGResponse ::
    "services \<Rightarrow> rag_state \<Rightarrow> jsval \<Rightarrow> userProfile \<Rightarrow> (js_error + answer) \<times> rag_state" where
  "generateRAGResponse srv st userQuery userProfile =
     (case searchLongevity srv st userQuery 8 rag_filter of
        (Inl e, st1) \<Rightarrow> (Inl e, st1)
      | (Inr searchResults, st1) \<Rightarrow>
          (let topResults = take 5 (sort_by_relevance searchResults);
               st2 = record_call (ChatCompletion userProfile userQuery topResults) st1
           in case chat_create srv (calls st1) userProfile userQuery topResults of
                None \<Rightarrow> (Inl GenerationError, st2)
              | Some generatedResponse \<Rightarrow>
                  (case formatRAGResponse generatedResponse topResults of
                     Inl e \<Rightarrow> (Inl e, st2)
                   | Inr formattedResponse \<Rightarrow>
                       (Inr \<lparr>ans_query = userQuery,
                             ans_response = fr_text formattedResponse,
                             ans_citations = fr_citations formattedResponse,
                             ans_sources = topResults,
                             ans_confidence = calculateResponseConfidence topResults,
                             ans_userProfile = userProfile\<rparr>, st2))))"

section \<open>Query endpoint (index.js)\<close>







text \<open>
  Concrete collaborators for running the services: the index always opens, the embedding
  of a text records how many calls came before it and the length of the text (so that no
  two calls give the same vector), the vector store returns six matches without metadata,
  and the generator cites the first source.
\<close>

definition plain_match :: "jsstring \<Rightarrow> real \<Rightarrow> pinecone_match" where
  "plain_match i s = \<lparr>pm_id = i, pm_score = s, pm_metadata = no_metadata\<rparr>"

definition demo_services :: services where
  "demo_services =
     \<lparr>index_handle = (\<lambda>h n. True),
      embeddings_create = (\<lambda>h t. Some [real (length h), real (length t)]),
      index_query = (\<lambda>h v k f. Some [plain_match (lit ''a'') 0.3, plain_match (lit ''b'') 0.6,
         plain_match (lit ''c'') 0.1, plain_match (lit ''d'') 0.5, plain_match (lit ''e'') 0.2,
         plain_match (lit ''f'') 0.4]),
      chat_create = (\<lambda>h p q r. Some (lit ''See [Source 1].'')),
      currentYear = 2026\<rparr>"


definition fresh_state :: rag_state where
  "fresh_state = \<lparr>embeddingsCache = Map.empty, calls = []\<rparr>"




text \<open>
  Two texts of 101 code units that differ in the last one only, and the state after
  embedding the first of them with \<open>demo_services\<close> from \<open>fresh_state\<close>.
\<close>

definition long_text :: "nat \<Rightarrow> jsstring" where
  "long_text c = replicate 100 0x61 @ [c]"

definition cached_state :: rag_state where
  "cached_state = \<lparr>embeddingsCache = [lit ''emb_'' @ replicate 100 0x61 \<mapsto> [0, 101]],
     calls = [EmbeddingsCreate (long_text 0x78)]\<rparr>"

text \<open>
  What \<open>demo_services\<close> lets \<open>generateRAGResponse\<close> compute for the query text \<open>t\<close>: the six
  search results, the five best of them in ranked order, the answer and the final state.
\<close>

definition demo_results :: "retrieval_result list" where
  "demo_results = map (format_match 2026)
     [plain_match (lit ''a'') 0.3, plain_match (lit ''b'') 0.6, plain_match (lit ''c'') 0.1,
      plain_match (lit ''d'') 0.5, plain_match (lit ''e'') 0.2, plain_match (lit ''f'') 0.4]"

definition demo_top5 :: "retrieval_result list" where
  "demo_top5 = map (format_match 2026)
     [plain_match (lit ''b'') 0.6, plain_match (lit ''d'') 0.5, plain_match (lit ''f'') 0.4,
      plain_match (lit ''a'') 0.3, plain_match (lit ''e'') 0.2]"

definition demo_answer :: "jsstring \<Rightarrow> answer" where
  "demo_answer t =
     \<lparr>ans_query = JStr t, ans_response = lit ''See [Source 1].'',
      ans_citations = [\<lparr>cit_text = lit ''[Source 1]'', sourceNumber = 1\<rparr>],
      ans_sources = demo_top5,
      ans_confidence = calculateResponseConfidence demo_top5,
      ans_userProfile = []\<rparr>"

definition demo_final :: "jsstring \<Rightarrow> rag_state" where
  "demo_final t =
     \<lparr>embeddingsCache = [lit ''emb_'' @ take 100 t \<mapsto> [1, real (length t)]],
      calls = [IndexHandle indexName, EmbeddingsCreate t,
               IndexQuery [1, real (length t)] 8 rag_filter,
               ChatCompletion [] (JStr t) demo_top5]\<rparr>"

section \<open>Properties of the ranker\<close>

lemma getRecencyBonus_range: "0 \<le> getRecencyBonus cy y \<and> getRecencyBonus cy y \<le> 0.2"
  by (simp add: getRecencyBonus_def Let_def split: option.split)

lemma getAuthorityBonus_range: "0 \<le> getAuthorityBonus t a \<and> getAuthorityBonus t a \<le> 0.3"
  by (simp add: getAuthorityBonus_def)

lemma num_or_half_range:
  assumes "\<forall>c. x = Some c \<longrightarrow> 0 \<le> c \<and> c \<le> 1"
  shows "0 < num_or x 0.5 \<and> num_or x 0.5 \<le> 1"
  using assms by (cases x) (auto simp: num_or_def)

lemma detectLanguage_ascii: "detectLanguage (lit ''NAD'') = lit ''english''"
  by (simp add: detectLanguage_def lit_def is_hangul_def)

lemma english_neq_korean: "lit ''english'' \<noteq> lit ''korean''"
  by (simp add: lit_def)





text \<open>
  Claim C1, as amended. For a similarity score of at most \<open>1\<close> and a metadata record whose
  \<open>clinical_relevance\<close> is absent or within \<open>[0,1]\<close> (year, type, author and language may all be
  absent), \<open>calculateRelevance\<close> and \<open>calculateMultilingualRelevance\<close> return at most \<open>1\<close>,
  \<open>calculateRelevance\<close> returns at least \<open>0.4 * similarity\<close>, and both return at least \<open>0\<close>
  when the similarity score is not negative. Neither function clamps from below.
\<close>

theorem relevance_bounds:
  assumes "s \<le> 1" and "\<forall>c. md_clinical_relevance m = Some c \<longrightarrow> 0 \<le> c \<and> c \<le> 1"
  shows "0.4 * s \<le> calculateRelevance cy s m
         \<and> calculateRelevance cy s m \<le> 1
         \<and> calculateMultilingualRelevance cy s m q \<le> 1
         \<and> (0 \<le> s \<longrightarrow> 0 \<le> calculateRelevance cy s m
                       \<and> 0 \<le> calculateMultilingualRelevance cy s m q)"
proof -
  let ?c = "num_or (md_clinical_relevance m) 0.5"
  let ?r = "getRecencyBonus cy (md_year m)"
  let ?a = "getAuthorityBonus (md_type m) (md_author m)"
  have c: "0 < ?c" "?c \<le> 1" using num_or_half_range [OF assms(2)] by simp_all
  have r: "0 \<le> ?r" "?r \<le> 0.2" using getRecencyBonus_range by simp_all
  have a: "0 \<le> ?a" "?a \<le> 0.3" using getAuthorityBonus_range by simp_all
  have eq: "calculateRelevance cy s m = 0.4 * s + 0.3 * ?c + 0.2 * ?r + 0.1 * ?a"
    by (simp add: calculateRelevance_def)
  have lo: "0.4 * s \<le> calculateRelevance cy s m" using c r a eq by simp
  have hi: "calculateRelevance cy s m \<le> 0.77" using c r a assms(1) eq by simp
  have mhi: "calculateMultilingualRelevance cy s m q \<le> 1"
    by (simp add: calculateMultilingualRelevance_def Let_def)
  have mlo: "0 \<le> calculateMultilingualRelevance cy s m q" if "0 \<le> s"
  proof -
    have "0 \<le> calculateRelevance cy s m" using lo that by simp
    then show ?thesis by (simp add: calculateMultilingualRelevance_def Let_def)
  qed
  show ?thesis using lo hi mhi mlo by simp
qed

text \<open>
  Claim C1 as stated fails for a negative similarity score: with similarity \<open>-1\<close> and every
  metadata field missing the base ranker returns \<open>-0.25\<close> and the multilingual ranker, which
  adds the same-language bonus and clamps only from above, returns \<open>-0.05\<close>.
\<close>

theorem relevance_out_of_range_counterexample:
  "calculateRelevance 2026 (- 1) no_metadata = - 1 / 4
   \<and> \<not> (0 \<le> calculateRelevance 2026 (- 1) no_metadata)
   \<and> calculateMultilingualRelevance 2026 (- 1) no_metadata (lit ''NAD'') = - 1 / 20
   \<and> \<not> (0 \<le> calculateMultilingualRelevance 2026 (- 1) no_metadata (lit ''NAD''))"
  by (simp add: calculateMultilingualRelevance_def calculateRelevance_def no_metadata_def
      num_or_def str_or_def getRecencyBonus_def getAuthorityBonus_def author_includes_def
      detectLanguage_ascii english_neq_korean)

theorem relevance_bounds_witness:
  "(0.9::real) \<le> 1
   \<and> md_clinical_relevance prof_oh_001 = Some 0.92
   \<and> 0 \<le> calculateRelevance 2026 0.9 prof_oh_001
   \<and> calculateRelevance 2026 0.9 prof_oh_001 \<le> 1
   \<and> 0 \<le> calculateMultilingualRelevance 2026 0.9 prof_oh_001 (lit ''NAD'')
   \<and> calculateMultilingualRelevance 2026 0.9 prof_oh_001 (lit ''NAD'') \<le> 1"
proof -
  have h1: "(0.9::real) \<le> 1" by simp
  have h2: "\<forall>c. md_clinical_relevance prof_oh_001 = Some c \<longrightarrow> 0 \<le> c \<and> c \<le> 1"
    by (simp add: prof_oh_001_def)
  have h3: "md_clinical_relevance prof_oh_001 = Some 0.92"
    by (simp add: prof_oh_001_def)
  show ?thesis using h1 h3 relevance_bounds [OF h1 h2, of 2026 "lit ''NAD''"] by simp
qed





section \<open>Properties of the confidence score\<close>

lemma foldl_relevance_sum:
  "foldl (\<lambda>sum s. sum + rr_relevance s) a sources = a + sum_list (map rr_relevance sources)"
  by (induction sources arbitrary: a) simp_all

lemma avg_nonempty:
  assumes "sources \<noteq> []"
  shows "js_div (foldl (\<lambda>sum s. sum + rr_relevance s) 0 sources) (real (length sources))
         = Num (mean_relevance sources)"
  using assms by (simp add: js_div_def foldl_relevance_sum mean_relevance_def)

lemma response_score_nonempty:
  assumes "sources \<noteq> []"
  shows "conf_score (calculateResponseConfidence sources) =
           Num (min 1 (max 0 (0.4 * mean_relevance sources + 0.3 * real (length sources)
                   + 0.3 * real (length (filter is_authority sources)))))"
  by (simp add: calculateResponseConfidence_def Let_def avg_nonempty [OF assms])

lemma gemini_score_nonempty:
  assumes "sources \<noteq> []"
  shows "conf_score (calculateGeminiConfidence sources) =
           Num (min 1 (max 0 (0.4 * mean_relevance sources + 0.3 * real (length sources)
                   + 0.3 * real (length (filter is_gemini_authority sources)))))"
  by (simp add: calculateGeminiConfidence_def Let_def avg_nonempty [OF assms])

lemma single_source_spec:
  assumes "length sources = 1"
  shows "min 1 (max 0 (0.4 * mean_relevance sources + 0.3 * real (length sources)
                   + 0.3 * real (length (filter P sources))))
         = spec_confidence 1 (mean_relevance sources) (length sources) (length (filter P sources))"
proof -
  have "length (filter P sources) \<le> 1" using assms length_filter_le [of P sources] by simp
  then have "min 1 (real (length (filter P sources))) = real (length (filter P sources))"
    by simp
  then show ?thesis using assms by (simp add: spec_confidence_def)
qed

lemma two_plain_mean: "mean_relevance [plain_result 0.1, plain_result 0.1] = 0.1"
  by (simp add: mean_relevance_def plain_result_def)

lemma one_plain_mean: "mean_relevance [plain_result 0.3] = 0.3"
  by (simp add: mean_relevance_def plain_result_def)

lemma plain_not_authority: "\<not> is_authority (plain_result r)" "\<not> is_gemini_authority (plain_result r)"
  by (simp_all add: is_authority_def is_gemini_authority_def plain_result_def no_metadata_def
      author_includes_def)

lemma confidence_nonempty_in_range:
  assumes "sources \<noteq> []"
  shows "\<exists>c. conf_score (calculateResponseConfidence sources) = Num c \<and> 0 \<le> c \<and> c \<le> 1"
  using response_score_nonempty [OF assms] by simp

lemma clamp_le:
  fixes x b :: real
  assumes "x \<le> b" and "0 \<le> b"
  shows "min 1 (max 0 x) \<le> b"
  using assms by (simp add: min_def max_def)

lemma spec_confidence_two_plain_le:
  "spec_confidence t (mean_relevance [plain_result 0.1, plain_result 0.1]) 2 0 \<le> 0.34"
proof -
  have m: "min 1 (real 2 / t) \<le> 1" by (rule min.cobounded1)
  have "0.3 * min 1 (real 2 / t) \<le> 0.3 * 1" using m by (intro mult_left_mono) simp_all
  then have "0.4 * (0.1::real) + 0.3 * min 1 (real 2 / t) + 0.3 * min 1 (real 0 / t) \<le> 0.34"
    by simp
  then have "min 1 (max 0 (0.4 * (0.1::real) + 0.3 * min 1 (real 2 / t)
               + 0.3 * min 1 (real 0 / t))) \<le> 0.34"
    by (rule clamp_le) simp
  then show ?thesis by (simp only: spec_confidence_def two_plain_mean)
qed

text \<open>
  Claim C2, as amended. For every non-empty list of sources the confidence score of
  \<open>calculateResponseConfidence\<close> and of \<open>calculateGeminiConfidence\<close> is
  \<open>0.4*avgRelevance + 0.3*sourceCount + 0.3*authorityCount\<close> clamped to \<open>[0,1]\<close>, where
  \<open>avgRelevance\<close> is the mean relevance of the sources and \<open>authorityCount\<close> the number of
  sources the function's authority test accepts. The counts enter as they are: they are
  neither divided by a target count nor capped at \<open>1\<close>. For a single source this is the
  specification's formula with target count \<open>1\<close>.
\<close>

theorem confidence_formula:
  assumes "sources \<noteq> []"
  shows "conf_score (calculateResponseConfidence sources) =
           Num (min 1 (max 0 (0.4 * mean_relevance sources + 0.3 * real (length sources)
                   + 0.3 * real (length (filter is_authority sources)))))
       \<and> conf_score (calculateGeminiConfidence sources) =
           Num (min 1 (max 0 (0.4 * mean_relevance sources + 0.3 * real (length sources)
                   + 0.3 * real (length (filter is_gemini_authority sources)))))
       \<and> (length sources = 1 \<longrightarrow>
            conf_score (calculateResponseConfidence sources) =
              Num (spec_confidence 1 (mean_relevance sources) (length sources)
                     (length (filter is_authority sources)))
          \<and> conf_score (calculateGeminiConfidence sources) =
              Num (spec_confidence 1 (mean_relevance sources) (length sources)
                     (length (filter is_gemini_authority sources))))"
  using response_score_nonempty [OF assms] gemini_score_nonempty [OF assms]
    single_source_spec [of sources]
  by simp

text \<open>
  Claim C2 as stated fails: two sources of relevance \<open>0.1\<close> and no authority give the score
  \<open>0.64\<close>, while the specification's formula gives \<open>0.34\<close>, \<open>0.16\<close> and \<open>0.115\<close> for the target
  counts \<open>1\<close>, \<open>5\<close> and \<open>8\<close> (and at most \<open>0.34\<close> for any target count, by
  \<open>spec_confidence_two_plain_le\<close>).
\<close>

theorem confidence_not_spec_formula_counterexample:
  "conf_score (calculateResponseConfidence [plain_result 0.1, plain_result 0.1]) = Num 0.64
   \<and> spec_confidence 1 (mean_relevance [plain_result 0.1, plain_result 0.1]) 2 0 = 0.34
   \<and> spec_confidence 5 (mean_relevance [plain_result 0.1, plain_result 0.1]) 2 0 = 0.16
   \<and> spec_confidence 8 (mean_relevance [plain_result 0.1, plain_result 0.1]) 2 0 = 0.115"
proof -
  have ne: "[plain_result 0.1, plain_result 0.1] \<noteq> []" by simp
  have "conf_score (calculateResponseConfidence [plain_result 0.1, plain_result 0.1]) = Num 0.64"
    using response_score_nonempty [OF ne] by (simp add: two_plain_mean plain_not_authority)
  then show ?thesis by (simp add: spec_confidence_def two_plain_mean)
qed

theorem confidence_formula_witness:
  "conf_score (calculateResponseConfidence [plain_result 0.1, plain_result 0.1]) = Num 0.64
   \<and> conf_score (calculateGeminiConfidence [plain_result 0.1, plain_result 0.1]) = Num 0.64
   \<and> conf_score (calculateResponseConfidence [plain_result 0.3]) = Num 0.42
   \<and> spec_confidence 1 (mean_relevance [plain_result 0.3]) 1 0 = 0.42"
proof -
  have ne: "[plain_result 0.1, plain_result 0.1] \<noteq> []" by simp
  have two: "conf_score (calculateResponseConfidence [plain_result 0.1, plain_result 0.1]) = Num 0.64
   \<and> conf_score (calculateGeminiConfidence [plain_result 0.1, plain_result 0.1]) = Num 0.64"
    using confidence_formula [OF ne]
    by (simp add: two_plain_mean plain_not_authority)
  have ne1: "[plain_result 0.3] \<noteq> []" by simp
  have l1: "length [plain_result 0.3] = 1" by simp
  have f: "conf_score (calculateResponseConfidence [plain_result 0.3])
          = Num (spec_confidence 1 (mean_relevance [plain_result 0.3])
                   (length [plain_result 0.3])
                   (length (filter is_authority [plain_result 0.3])))"
    using confidence_formula [OF ne1] l1 by blast
  have g: "spec_confidence 1 (mean_relevance [plain_result 0.3])
                   (length [plain_result 0.3])
                   (length (filter is_authority [plain_result 0.3])) = 0.42"
    by (simp add: spec_confidence_def one_plain_mean plain_not_authority)
  have s: "spec_confidence 1 (mean_relevance [plain_result 0.3]) 1 0 = 0.42"
    by (simp add: spec_confidence_def one_plain_mean)
  have one: "conf_score (calculateResponseConfidence [plain_result 0.3]) = Num 0.42"
    by (simp only: f g)
  show ?thesis using two one s by blast
qed

text \<open>
  Claim C7 does not hold of the code. For the empty list of sources the average is
  \<open>0 / 0\<close>, which is \<open>NaN\<close>; it survives the weighted sum and both \<open>Math.max\<close> and
  \<open>Math.min\<close>, so the score is \<open>NaN\<close> and the level is the lowest one. For a non-empty list
  the score is within \<open>[0,1]\<close> (\<open>confidence_nonempty_in_range\<close>).
\<close>

theorem confidence_empty_is_NaN:
  "conf_score (calculateResponseConfidence []) = NaN
   \<and> relevance_avg (conf_factors (calculateResponseConfidence [])) = NaN
   \<and> conf_level (calculateResponseConfidence []) = lit ''Low''
   \<and> conf_score (calculateGeminiConfidence []) = NaN"
  by (simp add: calculateResponseConfidence_def calculateGeminiConfidence_def js_div_def)

section \<open>Properties of chunking\<close>


lemma split_space_nonempty: "split_space t \<noteq> []"
  by (induction t) (auto split: list.split)


















text \<open>
  With \<open>chunkSize = 0\<close> the loop never ends: a call that returns had a positive window
  size.
\<close>

lemma chunk_loop_returns_positive:
  assumes "chunk_loop ws n i acc = Some r" and "i < length ws"
  shows "0 < n"
proof -
  have "\<not> (n = 0 \<and> i < length ws)"
  proof (rule chunk_loop.raw_induct
      [where P = "\<lambda>ws n i acc r. \<not> (n = 0 \<and> i < length ws)", OF _ assms(1)])
    fix f :: "jsstring list \<Rightarrow> nat \<Rightarrow> nat \<Rightarrow> jsstring list \<Rightarrow> jsstring list option"
    fix words :: "jsstring list" and chunkSize i :: nat and chunks y :: "jsstring list"
    assume ih: "\<And>a b c d y. f a b c d = Some y \<Longrightarrow> \<not> (b = 0 \<and> c < length a)"
      and step: "(if i < length words
           then f words chunkSize (i + chunkSize)
                  (chunks @ [join_space (slice words i (i + chunkSize))])
           else Some chunks) = Some y"
    show "\<not> (chunkSize = 0 \<and> i < length words)"
    proof
      assume z: "chunkSize = 0 \<and> i < length words"
      then have "f words chunkSize (i + chunkSize)
                  (chunks @ [join_space (slice words i (i + chunkSize))]) = Some y"
        using step by simp
      then have "\<not> (chunkSize = 0 \<and> i + chunkSize < length words)" by (rule ih)
      then show False using z by simp
    qed
  qed
  then show ?thesis using assms(2) by simp
qed

lemma chunkDocument_zero_diverges: "chunkDocument t 0 = None"
proof (cases "chunkDocument t 0")
  case None
  then show ?thesis .
next
  case (Some r)
  have "0 < length (split_space t)" using split_space_nonempty [of t] by simp
  then have "(0::nat) < 0"
    using Some chunk_loop_returns_positive [of "split_space t" 0 0 "[]" r]
    by (simp add: chunkDocument_def)
  then show ?thesis by simp
qed

section \<open>Properties of citation extraction\<close>

lemma source_open_units: "source_open = [0x5B, 0x53, 0x6F, 0x75, 0x72, 0x63, 0x65, 0x20]"
  by (simp add: source_open_def lit_def)

lemma source_open_length: "length source_open = 8"
  by (simp add: source_open_units)




















section \<open>Properties of the embedding cache and the answer pipeline\<close>

lemma first_embedding:
  "createEmbedding demo_services fresh_state (JStr (long_text 0x78)) = (Inr [0, 101], cached_state)"
  by (simp add: createEmbedding_def demo_services_def fresh_state_def cached_state_def
      long_text_def record_call_def)




lemma demo_search:
  "searchLongevity demo_services fresh_state (JStr t) 8 rag_filter =
     (Inr demo_results,
      \<lparr>embeddingsCache = [lit ''emb_'' @ take 100 t \<mapsto> [1, real (length t)]],
       calls = [IndexHandle indexName, EmbeddingsCreate t,
                IndexQuery [1, real (length t)] 8 rag_filter]\<rparr>)"
  by (simp add: searchLongevity_def createEmbedding_def demo_services_def fresh_state_def
      record_call_def Let_def demo_results_def)

lemma demo_relevance: "rr_relevance (format_match 2026 (plain_match i s)) = 0.4 * s + 0.15"
  by (simp add: format_match_def plain_match_def calculateRelevance_def no_metadata_def
      num_or_def getRecencyBonus_def getAuthorityBonus_def author_includes_def)

lemma demo_ranking:
  "take 5 (sort_by_relevance demo_results)
   = demo_top5"
  by (simp add: sort_by_relevance_def demo_top5_def demo_results_def demo_relevance)

lemma demo_citations:
  "formatRAGResponse (lit ''See [Source 1].'') rs =
     Inr \<lparr>fr_text = lit ''See [Source 1].'',
          fr_citations = [\<lparr>cit_text = lit ''[Source 1]'', sourceNumber = 1\<rparr>],
          fr_sourceCount = length rs\<rparr>"
  by (simp add: formatRAGResponse_def extractCitations_def match_citation_at_def
      first_digits_def parseInt_def source_open_def is_digit_def lit_def)

lemma demo_run:
  "generateRAGResponse demo_services fresh_state (JStr t) [] = (Inr (demo_answer t), demo_final t)"
  unfolding generateRAGResponse_def demo_search
  by (simp add: demo_ranking demo_citations Let_def record_call_def demo_answer_def
      demo_final_def demo_services_def)

lemma sort_by_relevance_sorted:
  "sorted_wrt (\<lambda>a b. rr_relevance b \<le> rr_relevance a) (sort_by_relevance rs)"
proof -
  have "sorted (map (\<lambda>r. - rr_relevance r) (sort_key (\<lambda>r. - rr_relevance r) rs))"
    by (rule sorted_sort_key)
  then show ?thesis by (simp add: sort_by_relevance_def sorted_map)
qed

lemma sort_by_relevance_set: "set (sort_by_relevance rs) = set rs"
  by (simp add: sort_by_relevance_def)

lemma top_dominates_rest:
  assumes "s \<in> set (take n (sort_by_relevance rs))" and "r \<in> set (drop n (sort_by_relevance rs))"
  shows "rr_relevance r \<le> rr_relevance s"
proof -
  have "sorted_wrt (\<lambda>a b. rr_relevance b \<le> rr_relevance a)
          (take n (sort_by_relevance rs) @ drop n (sort_by_relevance rs))"
    using sort_by_relevance_sorted by simp
  then show ?thesis using assms unfolding sorted_wrt_append by blast
qed

lemma generateRAGResponse_sources:
  assumes "generateRAGResponse srv st q p = (Inr ans, st')"
  shows "\<exists>results st1. searchLongevity srv st q 8 rag_filter = (Inr results, st1)
           \<and> ans_sources ans = take 5 (sort_by_relevance results)"
proof (cases "searchLongevity srv st q 8 rag_filter")
  case (Pair r st1)
  show ?thesis
  proof (cases r)
    case (Inl e)
    then show ?thesis using assms Pair by (simp add: generateRAGResponse_def)
  next
    case (Inr results)
    then have "ans_sources ans = take 5 (sort_by_relevance results)"
      using assms Pair
      by (auto simp: generateRAGResponse_def Let_def split: option.splits sum.splits)
    then show ?thesis using Pair Inr by blast
  qed
qed

text \<open>An entry of the cache is never removed or replaced by \<open>createEmbedding\<close>.\<close>

lemma createEmbedding_cache_kept:
  assumes "createEmbedding srv st v = (r, st')" and "embeddingsCache st k = Some e"
  shows "embeddingsCache st' k = Some e"
  using assms
  by (auto simp: createEmbedding_def Let_def record_call_def
      split: jsval.splits option.splits)

text \<open>
  Claim C8. When embedding a first text succeeds, embedding right afterwards a second text
  with the same first 100 code units returns the vector obtained for the first text and
  leaves the state as it is: the cache answers, and the embedding provider is not called,
  whatever it would have returned for the second text.
\<close>

theorem embedding_cache_prefix_collision:
  assumes "createEmbedding srv st (JStr t1) = (Inr e1, st1)"
    and "take 100 t1 = take 100 t2"
  shows "createEmbedding srv' st1 (JStr t2) = (Inr e1, st1)"
proof (cases "embeddingsCache st (lit ''emb_'' @ take 100 t1)")
  case (Some cached)
  then have "e1 = cached" and "st1 = st"
    using assms(1) by (simp_all add: createEmbedding_def Let_def)
  then show ?thesis using Some assms(2) by (simp add: createEmbedding_def Let_def)
next
  case None
  then obtain e where e: "embeddings_create srv (calls st) t1 = Some e"
    using assms(1) by (cases "embeddings_create srv (calls st) t1")
      (simp_all add: createEmbedding_def Let_def)
  have "e1 = e"
    and st1: "st1 = (record_call (EmbeddingsCreate t1) st)
        \<lparr>embeddingsCache := (embeddingsCache (record_call (EmbeddingsCreate t1) st))
           (lit ''emb_'' @ take 100 t1 \<mapsto> e)\<rparr>"
    using assms(1) None e by (auto simp: createEmbedding_def Let_def)
  then have "embeddingsCache st1 (lit ''emb_'' @ take 100 t2) = Some e1"
    using assms(2) by simp
  then show ?thesis by (simp add: createEmbedding_def Let_def)
qed

theorem embedding_cache_prefix_collision_witness:
  "long_text 0x78 \<noteq> long_text 0x79
   \<and> createEmbedding demo_services fresh_state (JStr (long_text 0x78)) = (Inr [0, 101], cached_state)
   \<and> createEmbedding demo_services cached_state (JStr (long_text 0x79)) = (Inr [0, 101], cached_state)
   \<and> embeddings_create demo_services (calls cached_state) (long_text 0x79) = Some [1, 101]"
proof -
  have p: "take 100 (long_text 0x78) = take 100 (long_text 0x79)"
    by (simp add: long_text_def)
  have d: "long_text 0x78 \<noteq> long_text 0x79" by (simp add: long_text_def)
  have f: "embeddings_create demo_services (calls cached_state) (long_text 0x79) = Some [1, 101]"
    by (simp add: demo_services_def cached_state_def long_text_def)
  show ?thesis
    using embedding_cache_prefix_collision [OF first_embedding p, of demo_services]
      first_embedding d f by simp
qed




text \<open>
  Claim C10. Whenever \<open>generateRAGResponse\<close> returns an answer, its sources are the first
  five entries (all of them when there are fewer) of the search results sorted by descending
  relevance: at most five, each one a search result, in descending order of relevance, and
  no result left out has a larger relevance than a source.
\<close>

theorem sources_top_five:
  assumes "generateRAGResponse srv st q p = (Inr ans, st')"
  shows "\<exists>results st1. searchLongevity srv st q 8 rag_filter = (Inr results, st1)
     \<and> ans_sources ans = take 5 (sort_by_relevance results)
     \<and> length (ans_sources ans) \<le> 5
     \<and> set (ans_sources ans) \<subseteq> set results
     \<and> sorted_wrt (\<lambda>a b. rr_relevance b \<le> rr_relevance a) (ans_sources ans)
     \<and> (\<forall>s \<in> set (ans_sources ans). \<forall>r \<in> set (drop 5 (sort_by_relevance results)).
           rr_relevance r \<le> rr_relevance s)"
proof -
  obtain results st1 where s: "searchLongevity srv st q 8 rag_filter = (Inr results, st1)"
    and t: "ans_sources ans = take 5 (sort_by_relevance results)"
    using generateRAGResponse_sources [OF assms] by blast
  have l: "length (ans_sources ans) \<le> 5" using t by simp
  have "set (take 5 (sort_by_relevance results)) \<subseteq> set (sort_by_relevance results)"
    by (rule set_take_subset)
  then have u: "set (ans_sources ans) \<subseteq> set results" using t sort_by_relevance_set by simp
  have o: "sorted_wrt (\<lambda>a b. rr_relevance b \<le> rr_relevance a) (ans_sources ans)"
    using t sort_by_relevance_sorted [of results] by (simp add: sorted_wrt_take)
  have d: "\<forall>s \<in> set (ans_sources ans). \<forall>r \<in> set (drop 5 (sort_by_relevance results)).
           rr_relevance r \<le> rr_relevance s"
    using t top_dominates_rest by simp
  show ?thesis using s t l u o d by blast
qed

theorem sources_top_five_witness:
  "generateRAGResponse demo_services fresh_state (JStr (lit ''NAD'')) []
     = (Inr (demo_answer (lit ''NAD'')), demo_final (lit ''NAD''))
   \<and> map rr_id (ans_sources (demo_answer (lit ''NAD'')))
       = [lit ''b'', lit ''d'', lit ''f'', lit ''a'', lit ''e'']
   \<and> length (ans_sources (demo_answer (lit ''NAD''))) \<le> 5
   \<and> sorted_wrt (\<lambda>a b. rr_relevance b \<le> rr_relevance a) (ans_sources (demo_answer (lit ''NAD'')))"
proof -
  note run = demo_run [of "lit ''NAD''"]
  have ids: "map rr_id (ans_sources (demo_answer (lit ''NAD'')))
       = [lit ''b'', lit ''d'', lit ''f'', lit ''a'', lit ''e'']"
    by (simp add: demo_answer_def demo_top5_def format_match_def plain_match_def)
  show ?thesis using sources_top_five [OF run] run ids by blast
qed

end
